theory Spec2Isabelle
  imports Main
begin

section \<open>LibraDesk: the lending engine of \<open>Assessment3/Assessment.py\<close>\<close>

text \<open>
  The theory embeds class \<open>LibraryDB\<close> and the overdue report of \<open>LibraDeskApp\<close>.
  The SQLite database is an explicit state: one list of rows per table, in insertion
  order, together with the AUTOINCREMENT counters of table \<open>sqlite_sequence\<close>.
  Every method takes the state and returns its result together with the new state.
  An exception is a value of type \<open>error\<close>, returned as \<open>Inl\<close>.

  Three things the methods read from their environment are parameters of the model:
  \<^item> the clock: the value of \<open>datetime.now()\<close>;
  \<^item> the storage engine: \<open>faults\<close> tells, for the k-th statement a method sends to
    SQLite, whether it raises \<open>sqlite3.Error\<close> and with which message;
  \<^item> strings are lists of 8-bit characters, so a Python string with a code point
    above 255 is outside the model, and so is the 64-bit range of SQLite's INTEGER.
\<close>

subsection \<open>Exceptions\<close>

datatype error =
    ValidationError string          \<comment> \<open>\<open>class ValidationError(Exception)\<close>\<close>
  | sqlite3_Error string            \<comment> \<open>\<open>sqlite3.Error\<close> other than the next one\<close>
  | sqlite3_IntegrityError string   \<comment> \<open>\<open>sqlite3.IntegrityError\<close>, a subclass of \<open>sqlite3.Error\<close>\<close>
  | OverflowError                   \<comment> \<open>raised by \<open>timedelta\<close> and by \<open>datetime + timedelta\<close>\<close>

subsection \<open>Dates and times\<close>

text \<open>
  A \<open>datetime\<close> is its number of microseconds since the midnight that starts day 0 of
  the proleptic Gregorian ordinal (\<open>date.toordinal\<close>), a \<open>date\<close> is its ordinal. The
  ISO strings the code stores in the TEXT columns are identified with the values they
  denote.
\<close>

type_synonym datetime = int
type_synonym date = int

definition us_per_day :: int where
  "us_per_day = 86400000000"

definition date_of :: "datetime \<Rightarrow> date" where   \<comment> \<open>\<open>dt.date()\<close>\<close>
  "date_of dt = dt div us_per_day"

definition midnight :: "date \<Rightarrow> datetime" where  \<comment> \<open>\<open>datetime.fromisoformat(d + "T00:00:00")\<close>\<close>
  "midnight d = d * us_per_day"

definition timedelta_days :: "int \<Rightarrow> int" where   \<comment> \<open>\<open>(a - b).days\<close> of the difference \<open>a - b\<close>\<close>
  "timedelta_days delta = delta div us_per_day"

definition timedelta :: "int \<Rightarrow> error + int" where  \<comment> \<open>\<open>timedelta(days=days)\<close>\<close>
  "timedelta days =
     (if \<bar>days\<bar> > 999999999 then Inl OverflowError else Inr (days * us_per_day))"

definition datetime_add :: "datetime \<Rightarrow> int \<Rightarrow> error + datetime" where  \<comment> \<open>\<open>dt + delta\<close>\<close>
  "datetime_add dt delta =
     (if date_of (dt + delta) < 1 \<or> 3652059 < date_of (dt + delta)
      then Inl OverflowError else Inr (dt + delta))"

subsection \<open>Regular expressions\<close>

text \<open>
  The fragment of Python's \<open>re\<close> that \<open>_validate_isbn\<close> uses. \<open>step r (i, s)\<close> lists,
  in the order a backtracking matcher tries them, the positions and remaining inputs
  after \<open>r\<close> has matched a prefix of \<open>s\<close> at position \<open>i\<close>; \<open>re_match\<close> is
  \<open>re.match(r, s) is not None\<close>. Without the MULTILINE flag \<open>^\<close> matches at position
  0 only and \<open>$\<close> matches at the end and before a newline that ends the string.
\<close>

datatype regex =
    Lit char              \<comment> \<open>a literal character\<close>
  | Digit                 \<comment> \<open>\<open>\d\<close>\<close>
  | Seq regex regex       \<comment> \<open>concatenation\<close>
  | Alt regex regex       \<comment> \<open>\<open>r|s\<close>, and the character class \<open>[\dX]\<close>\<close>
  | Opt regex             \<comment> \<open>\<open>r?\<close>\<close>
  | Rep nat nat regex     \<comment> \<open>\<open>r{m,n}\<close>; \<open>r{n}\<close> is \<open>Rep n n r\<close>\<close>
  | Bol                   \<comment> \<open>\<open>^\<close>\<close>
  | Eol                   \<comment> \<open>\<open>$\<close>\<close>

definition is_digit :: "char \<Rightarrow> bool" where
  "is_digit c = (c \<in> set ''0123456789'')"

fun iter :: "('a \<Rightarrow> 'a list) \<Rightarrow> nat \<Rightarrow> nat \<Rightarrow> 'a \<Rightarrow> 'a list" where
  "iter f 0 0 x = [x]"
| "iter f 0 (Suc n) x = concat (map (iter f 0 n) (f x)) @ [x]"
| "iter f (Suc m) 0 x = []"
| "iter f (Suc m) (Suc n) x = concat (map (iter f m n) (f x))"

fun step :: "regex \<Rightarrow> nat \<times> string \<Rightarrow> (nat \<times> string) list" where
  "step (Lit c) (i, s) = (case s of [] \<Rightarrow> [] | x # xs \<Rightarrow> if x = c then [(Suc i, xs)] else [])"
| "step Digit (i, s) = (case s of [] \<Rightarrow> [] | x # xs \<Rightarrow> if is_digit x then [(Suc i, xs)] else [])"
| "step (Seq r1 r2) st = concat (map (step r2) (step r1 st))"
| "step (Alt r1 r2) st = step r1 st @ step r2 st"
| "step (Opt r) st = step r st @ [st]"
| "step (Rep m n r) st = iter (step r) m n st"
| "step Bol (i, s) = (if i = 0 then [(i, s)] else [])"
| "step Eol (i, s) = (if s = [] \<or> s = [CHR 0x0A] then [(i, s)] else [])"

definition re_match :: "regex \<Rightarrow> string \<Rightarrow> bool" where
  "re_match r s = (step r (0, s) \<noteq> [])"

subsection \<open>Rows and the database\<close>

text \<open>
  Dataclass \<open>Book\<close> without its unused \<open>book_id\<close>; a row of table \<open>books\<close> extends it by
  the primary key. \<open>Person\<close> and a row of \<open>members\<close> likewise.
\<close>

record book =
  title :: string
  author :: string
  genre :: string
  isbn :: string
  available :: int

record book_row = book +
  book_id :: int

record person =
  name :: string
  email :: string

record member_row = person +
  member_id :: int

record tx_row =
  tx_id :: int
  tx_member_id :: int
  tx_book_id :: int
  borrow_date :: datetime
  due_date :: date
  return_date :: "date option"    \<comment> \<open>\<open>None\<close> is SQL NULL\<close>
  fine :: int

record db =
  members :: "member_row list"
  books :: "book_row list"
  transactions :: "tx_row list"
  seq_books :: int                \<comment> \<open>\<open>sqlite_sequence\<close> of \<open>books\<close>\<close>
  seq_transactions :: int         \<comment> \<open>\<open>sqlite_sequence\<close> of \<open>transactions\<close>\<close>

definition empty_db :: db where   \<comment> \<open>the database after \<open>_init_schema\<close> on a new file\<close>
  "empty_db = \<lparr>members = [], books = [], transactions = [], seq_books = 0, seq_transactions = 0\<rparr>"

text \<open>
  \<open>INTEGER PRIMARY KEY AUTOINCREMENT\<close>: the new rowid is one more than the largest
  rowid that the table holds or has ever held.
\<close>

definition next_rowid :: "int list \<Rightarrow> int \<Rightarrow> int" where
  "next_rowid ids seq = max (foldr max ids 0) seq + 1"

subsection \<open>Statements, transactions and storage failures\<close>

type_synonym faults = "nat \<Rightarrow> string option"

definition no_faults :: faults where
  "no_faults = (\<lambda>k. None)"

definition execute :: "faults \<Rightarrow> nat \<Rightarrow> 'a \<Rightarrow> error + 'a" where
  \<comment> \<open>the k-th statement of a method: it raises, or has the effect \<open>v\<close>\<close>
  "execute flt k v = (case flt k of Some msg \<Rightarrow> Inl (sqlite3_Error msg) | None \<Rightarrow> Inr v)"

definition with_conn :: "faults \<Rightarrow> nat \<Rightarrow> db \<Rightarrow> error + 'a \<times> db \<Rightarrow> (error + 'a) \<times> db" where
  \<comment> \<open>\<open>with self.conn:\<close> rolls back when the body raises and commits (statement \<open>k\<close>)
      when it does not; a failed commit is rolled back as well, as current CPython does\<close>
  "with_conn flt k s body =
     (case body of
        Inl e \<Rightarrow> (Inl e, s)
      | Inr (v, s') \<Rightarrow>
          (case execute flt k () of Inl e \<Rightarrow> (Inl e, s) | Inr _ \<Rightarrow> (Inr v, s')))"

definition except_sqlite3 :: "(error + 'a) \<times> db \<Rightarrow> (error + 'a) \<times> db" where
  \<comment> \<open>\<open>except sqlite3.Error as e: raise ValidationError(f"DB error: {e}")\<close>\<close>
  "except_sqlite3 r =
     (case fst r of
        Inl (sqlite3_Error msg) \<Rightarrow> (Inl (ValidationError (''DB error: '' @ msg)), snd r)
      | Inl (sqlite3_IntegrityError msg) \<Rightarrow> (Inl (ValidationError (''DB error: '' @ msg)), snd r)
      | _ \<Rightarrow> r)"

subsection \<open>Validators\<close>

definition isbn_pattern :: regex where
  \<comment> \<open>\<open>^(97(8|9))?\d{9}(\d|X)$|^\d{1,5}-\d{1,7}-\d{1,7}-[\dX]$\<close>\<close>
  "isbn_pattern =
     Alt (Seq Bol
           (Seq (Opt (Seq (Lit CHR ''9'') (Seq (Lit CHR ''7'') (Alt (Lit CHR ''8'') (Lit CHR ''9'')))))
           (Seq (Rep 9 9 Digit)
           (Seq (Alt Digit (Lit CHR ''X''))
            Eol))))
         (Seq Bol
           (Seq (Rep 1 5 Digit) (Seq (Lit CHR ''-'')
           (Seq (Rep 1 7 Digit) (Seq (Lit CHR ''-'')
           (Seq (Rep 1 7 Digit) (Seq (Lit CHR ''-'')
           (Seq (Alt Digit (Lit CHR ''X''))
            Eol))))))))"

definition validate_isbn :: "string \<Rightarrow> error + unit" where
  "validate_isbn s =
     (if \<not> re_match isbn_pattern s then Inl (ValidationError ''Invalid ISBN'') else Inr ())"

subsection \<open>Books\<close>

definition add_book :: "faults \<Rightarrow> book \<Rightarrow> db \<Rightarrow> (error + int) \<times> db" where
  \<comment> \<open>statement 0 is the INSERT, with the UNIQUE constraint on \<open>isbn\<close>; 1 is the commit\<close>
  "add_book flt b s =
     (case validate_isbn (isbn b) of
        Inl e \<Rightarrow> (Inl e, s)
      | Inr _ \<Rightarrow>
          with_conn flt 1 s
            (case execute flt 0 () of
               Inl e \<Rightarrow> Inl e
             | Inr _ \<Rightarrow>
                 if isbn b \<in> set (map isbn (books s))
                 then Inl (sqlite3_IntegrityError ''UNIQUE constraint failed: books.isbn'')
                 else
                   let lastrowid = next_rowid (map book_id (books s)) (seq_books s)
                   in Inr (lastrowid,
                           s\<lparr>books := books s @
                                [\<lparr>title = title b, author = author b, genre = genre b,
                                  isbn = isbn b, available = available b,
                                  book_id = lastrowid\<rparr>],
                             seq_books := lastrowid\<rparr>)))"

subsection \<open>Borrow and return\<close>

definition select_book :: "int \<Rightarrow> db \<Rightarrow> book_row option" where
  \<comment> \<open>\<open>SELECT available FROM books WHERE book_id=?\<close>, then \<open>fetchone()\<close>\<close>
  "select_book b_id s = find (\<lambda>b. book_id b = b_id) (books s)"

definition select_tx :: "int \<Rightarrow> db \<Rightarrow> tx_row option" where
  \<comment> \<open>\<open>SELECT * FROM transactions WHERE tx_id=?\<close>, then \<open>fetchone()\<close>\<close>
  "select_tx t_id s = find (\<lambda>t. tx_id t = t_id) (transactions s)"

definition update_available :: "int \<Rightarrow> int \<Rightarrow> db \<Rightarrow> db" where
  \<comment> \<open>\<open>UPDATE books SET available=available+d WHERE book_id=?\<close>\<close>
  "update_available b_id d s =
     s\<lparr>books := map (\<lambda>b. if book_id b = b_id then b\<lparr>available := available b + d\<rparr> else b)
                    (books s)\<rparr>"

definition insert_tx :: "int \<Rightarrow> int \<Rightarrow> datetime \<Rightarrow> date \<Rightarrow> db \<Rightarrow> db" where
  \<comment> \<open>\<open>INSERT INTO transactions(member_id,book_id,borrow_date,due_date)\<close>; the other
      columns take their defaults\<close>
  "insert_tx m_id b_id borrowed due s =
     (let rowid = next_rowid (map tx_id (transactions s)) (seq_transactions s)
      in s\<lparr>transactions := transactions s @
              [\<lparr>tx_id = rowid, tx_member_id = m_id, tx_book_id = b_id, borrow_date = borrowed,
                due_date = due, return_date = None, fine = 0\<rparr>],
            seq_transactions := rowid\<rparr>)"

definition close_tx :: "int \<Rightarrow> date \<Rightarrow> int \<Rightarrow> db \<Rightarrow> db" where
  \<comment> \<open>\<open>UPDATE transactions SET return_date=?, fine=? WHERE tx_id=?\<close>\<close>
  "close_tx t_id returned amount s =
     s\<lparr>transactions :=
         map (\<lambda>t. if tx_id t = t_id then t\<lparr>return_date := Some returned, fine := amount\<rparr> else t)
             (transactions s)\<rparr>"

definition borrow_book :: "faults \<Rightarrow> datetime \<Rightarrow> int \<Rightarrow> int \<Rightarrow> int \<Rightarrow> db \<Rightarrow> (error + unit) \<times> db" where
  \<comment> \<open>statements: 0 SELECT, 1 UPDATE, 2 INSERT, 3 commit; \<open>now\<close> is \<open>datetime.now()\<close>\<close>
  "borrow_book flt now m_id b_id days s =
     except_sqlite3 (with_conn flt 3 s
       (case execute flt 0 (select_book b_id s) of
          Inl e \<Rightarrow> Inl e
        | Inr book \<Rightarrow>
            if (case book of None \<Rightarrow> True | Some b \<Rightarrow> available b \<le> 0)
            then Inl (ValidationError ''Book not available'')
            else
              (case execute flt 1 (update_available b_id (- 1) s) of
                 Inl e \<Rightarrow> Inl e
               | Inr s1 \<Rightarrow>
                   (case timedelta days of
                      Inl e \<Rightarrow> Inl e
                    | Inr delta \<Rightarrow>
                        (case datetime_add now delta of
                           Inl e \<Rightarrow> Inl e
                         | Inr due \<Rightarrow>
                             (case execute flt 2 (insert_tx m_id b_id now (date_of due) s1) of
                                Inl e \<Rightarrow> Inl e
                              | Inr s2 \<Rightarrow> Inr ((), s2)))))))"

definition return_book :: "faults \<Rightarrow> datetime \<Rightarrow> int \<Rightarrow> int \<Rightarrow> db \<Rightarrow> (error + int) \<times> db" where
  \<comment> \<open>statements: 0 SELECT, 1 UPDATE transactions, 2 UPDATE books, 3 commit;
      \<open>today\<close> is \<open>datetime.now()\<close>\<close>
  "return_book flt today t_id fine_per_day s =
     except_sqlite3 (with_conn flt 3 s
       (case execute flt 0 (select_tx t_id s) of
          Inl e \<Rightarrow> Inl e
        | Inr tx \<Rightarrow>
            (case tx of
               None \<Rightarrow> Inl (ValidationError ''Invalid transaction or already returned'')
             | Some t \<Rightarrow>
                 if return_date t \<noteq> None
                 then Inl (ValidationError ''Invalid transaction or already returned'')
                 else
                   let due = midnight (due_date t);
                       overdue_days = max (timedelta_days (today - due)) 0;
                       amount = overdue_days * fine_per_day
                   in (case execute flt 1 (close_tx t_id (date_of today) amount s) of
                         Inl e \<Rightarrow> Inl e
                       | Inr s1 \<Rightarrow>
                           (case execute flt 2 (update_available (tx_book_id t) 1 s1) of
                              Inl e \<Rightarrow> Inl e
                            | Inr s2 \<Rightarrow> Inr (amount, s2))))))"

subsection \<open>Reports\<close>

definition active_loans :: "db \<Rightarrow> (tx_row \<times> string \<times> string) list" where
  \<comment> \<open>a row is \<open>t.*\<close>, \<open>member_name\<close>, \<open>book_title\<close>; both JOINs are inner joins\<close>
  "active_loans s =
     sort_key (\<lambda>r. - tx_id (fst r))
       [(t, name m, title b).
          t \<leftarrow> transactions s,
          m \<leftarrow> members s, member_id m = tx_member_id t,
          b \<leftarrow> books s, book_id b = tx_book_id t,
          return_date t = None]"

fun str_nat :: "nat \<Rightarrow> string" where
  "str_nat n =
     (if n < 10 then [''0123456789'' ! n] else str_nat (n div 10) @ [''0123456789'' ! (n mod 10)])"

definition str_int :: "int \<Rightarrow> string" where   \<comment> \<open>\<open>str(i)\<close>\<close>
  "str_int i = (if i < 0 then CHR ''-'' # str_nat (nat (- i)) else str_nat (nat i))"

fun overdue_rows :: "date \<Rightarrow> (tx_row \<times> string \<times> string) list \<Rightarrow> (string \<times> string \<times> string \<times> string) list" where
  \<comment> \<open>the loop of \<open>_overdue_list\<close>; \<open>due\<close> and \<open>today\<close> are dates, so their difference
      is a whole number of days\<close>
  "overdue_rows today [] = []"
| "overdue_rows today (r # rs) =
     (let due = due_date (fst r)
      in (if due < today
          then [(''Overdue'', fst (snd r), snd (snd r), str_int (today - due) @ '' days'')]
          else []) @ overdue_rows today rs)"

definition overdue_list :: "datetime \<Rightarrow> db \<Rightarrow> (string \<times> string \<times> string \<times> string) list" where
  \<comment> \<open>the rows \<open>_overdue_list\<close> hands to \<open>_fill_search\<close>; \<open>now\<close> is \<open>datetime.now()\<close>\<close>
  "overdue_list now s = overdue_rows (date_of now) (active_loans s)"

subsection \<open>Sequences of operations\<close>

datatype op =
    Borrow faults datetime int int int
  | Return faults datetime int int

fun apply_op :: "op \<Rightarrow> db \<Rightarrow> db" where
  "apply_op (Borrow flt now m_id b_id days) s = snd (borrow_book flt now m_id b_id days s)"
| "apply_op (Return flt today t_id fine_per_day) s = snd (return_book flt today t_id fine_per_day s)"

definition run :: "op list \<Rightarrow> db \<Rightarrow> db" where
  "run ops s = fold apply_op ops s"

definition open_loans :: "int \<Rightarrow> db \<Rightarrow> nat" where
  \<comment> \<open>the number of transactions of book \<open>b_id\<close> with NULL \<open>return_date\<close>\<close>
  "open_loans b_id s =
     length (filter (\<lambda>t. tx_book_id t = b_id \<and> return_date t = None) (transactions s))"

text \<open>
  What the PRIMARY KEY and AUTOINCREMENT clauses of the schema guarantee, with the fact
  that \<open>borrow_book\<close> names an existing book: keys are unique and no key, and no book a
  transaction names, is beyond the counter of its table.
\<close>

definition wf_db :: "db \<Rightarrow> bool" where
  "wf_db s =
     (distinct (map book_id (books s)) \<and>
      distinct (map tx_id (transactions s)) \<and>
      list_all (\<lambda>b. book_id b \<le> seq_books s) (books s) \<and>
      list_all (\<lambda>t. tx_id t \<le> seq_transactions s \<and> tx_book_id t \<le> seq_books s) (transactions s))"

text \<open>
  The database after \<open>seed_if_empty\<close> on a new file, and a clock reading: 1 June 2024
  (ordinal 739038) at 10:00.
\<close>

definition seed_db :: db where
  "seed_db =
     \<lparr>members =
        [\<lparr>name = ''Alice Sharma'', email = ''alice@example.com'', member_id = 1\<rparr>,
         \<lparr>name = ''Bob Khan'', email = ''bob@example.com'', member_id = 2\<rparr>],
      books =
        [\<lparr>title = ''Python Crash Course'', author = ''Eric Matthes'', genre = ''Programming'',
          isbn = ''9781593276034'', available = 3, book_id = 1\<rparr>,
         \<lparr>title = ''Clean Code'', author = ''Robert C. Martin'', genre = ''Software'',
          isbn = ''9780132350884'', available = 2, book_id = 2\<rparr>,
         \<lparr>title = ''Atomic Habits'', author = ''James Clear'', genre = ''Self-help'',
          isbn = ''9780735211292'', available = 5, book_id = 3\<rparr>],
      transactions = [],
      seq_books = 3,
      seq_transactions = 0\<rparr>"

definition june_1st :: datetime where
  "june_1st = 63852919200000000"

text \<open>
  Example states and inputs: the seeded database after member 1 borrows book 2 for 7
  days on 1 June, that database after the loan is returned 10 days later at 5 a day,
  the seeded database after a borrow in the name of member 99, who does not exist, a
  storage engine whose third statement fails, a book with 2 copies and the same book
  with a negative count.
\<close>

definition loan_db :: db where
  "loan_db = snd (borrow_book no_faults june_1st 1 2 7 seed_db)"

definition returned_db :: db where
  "returned_db = snd (return_book no_faults (june_1st + 10 * us_per_day) 1 5 loan_db)"

definition stranger_db :: db where
  "stranger_db = snd (borrow_book no_faults june_1st 99 2 7 seed_db)"

definition io_fault :: faults where
  "io_fault = (\<lambda>k. if k = 2 then Some ''disk I/O error'' else None)"

definition new_book :: book where
  "new_book =
     \<lparr>title = ''Refactoring'', author = ''Martin Fowler'', genre = ''Software'',
      isbn = ''9780201485677'', available = 2\<rparr>"

definition negative_book :: book where
  "negative_book = new_book\<lparr>available := - 1\<rparr>"

section \<open>Basic facts\<close>

lemma date_of_add_days: "date_of (dt + days * us_per_day) = date_of dt + days"
  by (simp add: date_of_def us_per_day_def)

lemma timedelta_days_midnight: "timedelta_days (today - midnight d) = date_of today - d"
  by (simp add: timedelta_days_def midnight_def date_of_def us_per_day_def)

lemma date_of_june_1st: "date_of june_1st = 739038"
  by (simp add: date_of_def june_1st_def us_per_day_def)

lemma borrow_book_ok:
  assumes "flt 0 = None" "flt 1 = None" "flt 2 = None" "flt 3 = None"
    and "select_book b_id s = Some b" "0 < available b"
    and "\<bar>days\<bar> \<le> 999999999" "1 \<le> date_of now + days" "date_of now + days \<le> 3652059"
  shows "borrow_book flt now m_id b_id days s =
           (Inr (), insert_tx m_id b_id now (date_of now + days) (update_available b_id (- 1) s))"
  using assms
  unfolding borrow_book_def except_sqlite3_def with_conn_def execute_def
    timedelta_def datetime_add_def
  by (simp add: date_of_add_days)

lemma borrow_book_cases:
  "(\<exists>b. select_book b_id s = Some b \<and> 0 < available b \<and>
        borrow_book flt now m_id b_id days s =
          (Inr (), insert_tx m_id b_id now (date_of now + days) (update_available b_id (- 1) s)))
   \<or> (\<exists>e. borrow_book flt now m_id b_id days s = (Inl e, s))"
  unfolding borrow_book_def except_sqlite3_def with_conn_def execute_def
    timedelta_def datetime_add_def
  by (auto simp: date_of_add_days split: option.splits sum.splits error.splits)

lemma return_book_ok:
  assumes "flt 0 = None" "flt 1 = None" "flt 2 = None" "flt 3 = None"
    and "select_tx t_id s = Some t" "return_date t = None"
  shows "return_book flt today t_id fine_per_day s =
           (Inr (max (date_of today - due_date t) 0 * fine_per_day),
            update_available (tx_book_id t) 1
              (close_tx t_id (date_of today) (max (date_of today - due_date t) 0 * fine_per_day) s))"
  using assms
  unfolding return_book_def except_sqlite3_def with_conn_def execute_def
  by (simp add: timedelta_days_midnight Let_def)

lemma return_book_cases:
  "(\<exists>t. select_tx t_id s = Some t \<and> return_date t = None \<and>
        return_book flt today t_id fine_per_day s =
          (Inr (max (date_of today - due_date t) 0 * fine_per_day),
           update_available (tx_book_id t) 1
             (close_tx t_id (date_of today) (max (date_of today - due_date t) 0 * fine_per_day) s)))
   \<or> (\<exists>e. return_book flt today t_id fine_per_day s = (Inl e, s))"
  unfolding return_book_def except_sqlite3_def with_conn_def execute_def
  by (auto simp: timedelta_days_midnight Let_def split: option.splits sum.splits error.splits)

lemma find_map_key:
  assumes "\<And>x. key (g x) = key x"
  shows "find (\<lambda>x. key x = k) (map g xs) = map_option g (find (\<lambda>x. key x = k) xs)"
  by (induction xs) (simp_all add: assms)

lemma select_book_update_available:
  "select_book i (update_available j d s) =
     map_option (\<lambda>b. if book_id b = j then b\<lparr>available := available b + d\<rparr> else b) (select_book i s)"
  unfolding select_book_def update_available_def
  by (simp add: find_map_key [where key = book_id])

lemma select_book_insert_tx: "select_book i (insert_tx m b n d s) = select_book i s"
  by (simp add: select_book_def insert_tx_def Let_def)

lemma select_book_close_tx: "select_book i (close_tx t d a s) = select_book i s"
  by (simp add: select_book_def close_tx_def)

lemma select_tx_update_available: "select_tx i (update_available j d s) = select_tx i s"
  by (simp add: select_tx_def update_available_def)

lemma select_tx_close_tx:
  "select_tx i (close_tx j d a s) =
     map_option (\<lambda>t. if tx_id t = j then t\<lparr>return_date := Some d, fine := a\<rparr> else t) (select_tx i s)"
  unfolding select_tx_def close_tx_def
  by (simp add: find_map_key [where key = tx_id])

lemma select_book_available:
  "select_book b_id s = Some b \<Longrightarrow> book_id b = b_id"
  by (auto simp: select_book_def find_Some_iff)

lemma select_tx_id:
  "select_tx t_id s = Some t \<Longrightarrow> tx_id t = t_id"
  by (auto simp: select_tx_def find_Some_iff)


subsection \<open>Keys and well-formed databases\<close>

lemma foldr_max_ge: "i \<in> set ids \<Longrightarrow> i \<le> foldr max ids (0::int)"
  by (induction ids) auto

lemma next_rowid_gt_ids: "i \<in> set ids \<Longrightarrow> i < next_rowid ids seq"
  using foldr_max_ge [of i ids] by (simp add: next_rowid_def)

lemma next_rowid_gt_seq: "seq < next_rowid ids seq"
  by (simp add: next_rowid_def)

lemma wf_empty_db: "wf_db empty_db"
  by (simp add: wf_db_def empty_db_def)

lemma seed_db_books:
  "snd (add_book no_faults
          \<lparr>title = ''Atomic Habits'', author = ''James Clear'', genre = ''Self-help'',
           isbn = ''9780735211292'', available = 5\<rparr>
       (snd (add_book no_faults
          \<lparr>title = ''Clean Code'', author = ''Robert C. Martin'', genre = ''Software'',
           isbn = ''9780132350884'', available = 2\<rparr>
       (snd (add_book no_faults
          \<lparr>title = ''Python Crash Course'', author = ''Eric Matthes'', genre = ''Programming'',
           isbn = ''9781593276034'', available = 3\<rparr>
       (empty_db\<lparr>members := members seed_db\<rparr>)))))) = seed_db"
  by code_simp

lemma wf_seed_db: "wf_db seed_db"
  by (simp add: wf_db_def seed_db_def)

lemma wf_update_available: "wf_db (update_available j d s) = wf_db s"
proof -
  let ?g = "\<lambda>b::book_row. if book_id b = j then b\<lparr>available := available b + d\<rparr> else b"
  have key: "book_id (?g b) = book_id b" for b :: book_row
    by simp
  have "map book_id (books (update_available j d s)) = map book_id (books s)"
    unfolding update_available_def by (simp add: comp_def key)
  moreover have "list_all (\<lambda>b. book_id b \<le> n) (books (update_available j d s))
      = list_all (\<lambda>b. book_id b \<le> n) (books s)" for n
    unfolding update_available_def by (simp add: list.pred_map comp_def key)
  moreover have "transactions (update_available j d s) = transactions s"
    "seq_books (update_available j d s) = seq_books s"
    "seq_transactions (update_available j d s) = seq_transactions s"
    by (simp_all add: update_available_def)
  ultimately show ?thesis
    by (simp only: wf_db_def)
qed

lemma wf_close_tx: "wf_db (close_tx t_id d a s) = wf_db s"
proof -
  let ?g = "\<lambda>t::tx_row. if tx_id t = t_id then t\<lparr>return_date := Some d, fine := a\<rparr> else t"
  have key: "tx_id (?g t) = tx_id t" "tx_book_id (?g t) = tx_book_id t" for t :: tx_row
    by simp_all
  have "map tx_id (transactions (close_tx t_id d a s)) = map tx_id (transactions s)"
    unfolding close_tx_def by (simp add: comp_def key)
  moreover have "list_all (\<lambda>t. tx_id t \<le> n \<and> tx_book_id t \<le> m) (transactions (close_tx t_id d a s))
      = list_all (\<lambda>t. tx_id t \<le> n \<and> tx_book_id t \<le> m) (transactions s)" for n m
    unfolding close_tx_def by (simp add: list.pred_map comp_def key)
  moreover have "books (close_tx t_id d a s) = books s"
    "seq_books (close_tx t_id d a s) = seq_books s"
    "seq_transactions (close_tx t_id d a s) = seq_transactions s"
    by (simp_all add: close_tx_def)
  ultimately show ?thesis
    by (simp only: wf_db_def)
qed

lemma select_book_bound:
  "wf_db s \<Longrightarrow> select_book b_id s = Some b \<Longrightarrow> b_id \<le> seq_books s"
  by (auto simp: wf_db_def select_book_def find_Some_iff list_all_iff)

lemma wf_insert_tx:
  assumes "wf_db s" and "b_id \<le> seq_books s"
  shows "wf_db (insert_tx m_id b_id n d s)"
proof -
  let ?r = "next_rowid (map tx_id (transactions s)) (seq_transactions s)"
  have "?r \<notin> set (map tx_id (transactions s))"
    using next_rowid_gt_ids [of ?r "map tx_id (transactions s)" "seq_transactions s"] by auto
  moreover have "\<forall>t\<in>set (transactions s). tx_id t \<le> ?r"
    using next_rowid_gt_ids [of _ "map tx_id (transactions s)" "seq_transactions s"]
    by (auto intro: less_imp_le)
  ultimately show ?thesis
    using assms by (auto simp: wf_db_def insert_tx_def Let_def list_all_iff)
qed

lemma wf_borrow_book: "wf_db s \<Longrightarrow> wf_db (snd (borrow_book flt now m_id b_id days s))"
proof -
  assume wf: "wf_db s"
  from borrow_book_cases [of b_id s flt now m_id days] show ?thesis
  proof (elim disjE exE conjE)
    fix b
    assume b: "select_book b_id s = Some b"
      and eq: "borrow_book flt now m_id b_id days s =
          (Inr (), insert_tx m_id b_id now (date_of now + days) (update_available b_id (- 1) s))"
    have "b_id \<le> seq_books (update_available b_id (- 1) s)"
      using select_book_bound [OF wf b] by (simp add: update_available_def)
    then show ?thesis
      by (simp add: eq wf_insert_tx wf_update_available wf)
  next
    fix e
    assume "borrow_book flt now m_id b_id days s = (Inl e, s)"
    then show ?thesis by (simp add: wf)
  qed
qed

lemma wf_return_book: "wf_db s \<Longrightarrow> wf_db (snd (return_book flt today t_id F s))"
  using return_book_cases [of t_id s flt today F]
  by (auto simp: wf_update_available wf_close_tx)

subsection \<open>Open loans and the copies of a book\<close>

lemma open_loans_update_available: "open_loans b (update_available j d s) = open_loans b s"
  by (simp add: open_loans_def update_available_def)

lemma open_loans_insert_tx:
  "open_loans b (insert_tx m_id b_id n d s) = open_loans b s + (if b_id = b then 1 else 0)"
  by (simp add: open_loans_def insert_tx_def Let_def)

lemma close_one:
  fixes ts :: "tx_row list"
  assumes "distinct (map tx_id ts)" and "find (\<lambda>t. tx_id t = i) ts = Some tx"
    and "return_date tx = None"
  shows "length (filter (\<lambda>t. tx_book_id t = b \<and> return_date t = None)
            (map (\<lambda>t. if tx_id t = i then t\<lparr>return_date := Some d, fine := a\<rparr> else t) ts))
          + (if tx_book_id tx = b then 1 else 0)
         = length (filter (\<lambda>t. tx_book_id t = b \<and> return_date t = None) ts)"
  using assms
proof (induction ts)
  case Nil
  then show ?case by simp
next
  case (Cons x xs)
  show ?case
  proof (cases "tx_id x = i")
    case True
    then have x: "x = tx"
      using Cons.prems(2) by simp
    have "\<forall>t\<in>set xs. tx_id t \<noteq> i"
      using Cons.prems(1) True by (auto simp: image_iff)
    then have "map (\<lambda>t. if tx_id t = i then t\<lparr>return_date := Some d, fine := a\<rparr> else t) xs = xs"
      by (simp add: map_idI)
    then show ?thesis
      using True x Cons.prems(3) by simp
  next
    case False
    then show ?thesis
      using Cons by (auto split: if_splits)
  qed
qed

lemma open_loans_close_tx:
  assumes "wf_db s" and "select_tx t_id s = Some t" and "return_date t = None"
  shows "open_loans b (close_tx t_id d a s) + (if tx_book_id t = b then 1 else 0) = open_loans b s"
  using close_one [where ts = "transactions s" and i = t_id and tx = t and b = b and d = d and a = a] assms
  by (simp add: open_loans_def close_tx_def wf_db_def select_tx_def)

lemma borrow_book_conserves:
  assumes "wf_db s" and "select_book b s = Some r"
  shows "\<exists>r'. select_book b (snd (borrow_book flt now m_id b_id days s)) = Some r' \<and>
           available r' + int (open_loans b (snd (borrow_book flt now m_id b_id days s)))
             = available r + int (open_loans b s) \<and>
           (0 \<le> available r \<longrightarrow> 0 \<le> available r')"
proof -
  from borrow_book_cases [of b_id s flt now m_id days] show ?thesis
  proof (elim disjE exE conjE)
    fix bk
    assume bk: "select_book b_id s = Some bk" "0 < available bk"
      and eq: "borrow_book flt now m_id b_id days s =
          (Inr (), insert_tx m_id b_id now (date_of now + days) (update_available b_id (- 1) s))"
    have snd_eq: "snd (borrow_book flt now m_id b_id days s) =
        insert_tx m_id b_id now (date_of now + days) (update_available b_id (- 1) s)"
      by (simp add: eq)
    have pos: "b_id = b \<Longrightarrow> 0 < available r"
      using bk assms(2) by auto
    show ?thesis
      using pos select_book_available [OF assms(2)]
      by (auto simp: snd_eq select_book_insert_tx select_book_update_available assms(2)
              open_loans_insert_tx open_loans_update_available)
  next
    fix e
    assume "borrow_book flt now m_id b_id days s = (Inl e, s)"
    then show ?thesis by (simp add: assms(2))
  qed
qed

lemma return_book_conserves:
  assumes "wf_db s" and "select_book b s = Some r"
  shows "\<exists>r'. select_book b (snd (return_book flt today t_id F s)) = Some r' \<and>
           available r' + int (open_loans b (snd (return_book flt today t_id F s)))
             = available r + int (open_loans b s) \<and>
           (0 \<le> available r \<longrightarrow> 0 \<le> available r')"
proof -
  from return_book_cases [of t_id s flt today F] show ?thesis
  proof (elim disjE exE conjE)
    fix t
    assume t: "select_tx t_id s = Some t" "return_date t = None"
      and eq: "return_book flt today t_id F s =
          (Inr (max (date_of today - due_date t) 0 * F),
           update_available (tx_book_id t) 1
             (close_tx t_id (date_of today) (max (date_of today - due_date t) 0 * F) s))"
    let ?amount = "max (date_of today - due_date t) 0 * F"
    have snd_eq: "snd (return_book flt today t_id F s) =
        update_available (tx_book_id t) 1 (close_tx t_id (date_of today) ?amount s)"
      by (simp add: eq)
    note ol = open_loans_close_tx [OF assms(1) t, of b "date_of today" ?amount]
    show ?thesis
      using ol select_book_available [OF assms(2)]
      by (auto simp: snd_eq select_book_close_tx select_book_update_available assms(2)
              open_loans_update_available split: if_splits)
  next
    fix e
    assume "return_book flt today t_id F s = (Inl e, s)"
    then show ?thesis by (simp add: assms(2))
  qed
qed

lemma apply_op_wf: "wf_db s \<Longrightarrow> wf_db (apply_op x s)"
  by (cases x) (simp_all add: wf_borrow_book wf_return_book)

lemma apply_op_conserves:
  assumes "wf_db s" and "select_book b s = Some r"
  shows "\<exists>r'. select_book b (apply_op x s) = Some r' \<and>
           available r' + int (open_loans b (apply_op x s)) = available r + int (open_loans b s) \<and>
           (0 \<le> available r \<longrightarrow> 0 \<le> available r')"
proof (cases x)
  case (Borrow flt now m_id b_id days)
  then show ?thesis
    using borrow_book_conserves [OF assms, of flt now m_id b_id days] by simp
next
  case (Return flt today t_id F)
  then show ?thesis
    using return_book_conserves [OF assms, of flt today t_id F] by simp
qed

lemma run_conserves:
  assumes "wf_db s" and "select_book b s = Some r"
  shows "wf_db (run ops s) \<and>
         (\<exists>r'. select_book b (run ops s) = Some r' \<and>
           available r' + int (open_loans b (run ops s)) = available r + int (open_loans b s) \<and>
           (0 \<le> available r \<longrightarrow> 0 \<le> available r'))"
  using assms
proof (induction ops arbitrary: s r)
  case Nil
  then show ?case by (simp add: run_def)
next
  case (Cons x xs)
  from apply_op_conserves [OF Cons.prems, of x]
  obtain r1 where r1: "select_book b (apply_op x s) = Some r1"
    "available r1 + int (open_loans b (apply_op x s)) = available r + int (open_loans b s)"
    "0 \<le> available r \<longrightarrow> 0 \<le> available r1"
    by blast
  from Cons.IH [OF apply_op_wf [OF Cons.prems(1)] r1(1)] r1(2,3)
  show ?case
    by (auto simp: run_def)
qed

subsection \<open>Adding books and validating ISBNs\<close>

lemma add_book_cases:
  "(\<exists>e. add_book flt b s = (Inl e, s)) \<or>
   (isbn b \<notin> set (map isbn (books s)) \<and>
    add_book flt b s =
      (Inr (next_rowid (map book_id (books s)) (seq_books s)),
       s\<lparr>books := books s @
             [\<lparr>title = title b, author = author b, genre = genre b, isbn = isbn b,
               available = available b,
               book_id = next_rowid (map book_id (books s)) (seq_books s)\<rparr>],
         seq_books := next_rowid (map book_id (books s)) (seq_books s)\<rparr>))"
  unfolding add_book_def with_conn_def execute_def
  by (auto simp: Let_def split: sum.splits option.splits)

lemma find_append_new:
  "\<forall>x\<in>set xs. \<not> P x \<Longrightarrow> P y \<Longrightarrow> find P (xs @ [y]) = Some y"
  by (induction xs) simp_all

lemma wf_add_book: "wf_db s \<Longrightarrow> wf_db (snd (add_book flt b s))"
proof -
  assume wf: "wf_db s"
  let ?r = "next_rowid (map book_id (books s)) (seq_books s)"
  have "?r \<notin> set (map book_id (books s))"
    using next_rowid_gt_ids [of ?r "map book_id (books s)" "seq_books s"] by auto
  moreover have "\<forall>x\<in>set (books s). book_id x \<le> ?r"
    using next_rowid_gt_ids [of _ "map book_id (books s)" "seq_books s"]
    by (auto intro: less_imp_le)
  moreover have "\<forall>t\<in>set (transactions s). tx_book_id t \<le> ?r"
    using wf next_rowid_gt_seq [of "seq_books s" "map book_id (books s)"]
    by (auto simp: wf_db_def list_all_iff)
  ultimately show ?thesis
    using wf add_book_cases [of flt b s]
    by (auto simp: wf_db_def list_all_iff)
qed

lemma validate_isbn_123: "validate_isbn ''123'' = Inl (ValidationError ''Invalid ISBN'')"
  by code_simp

lemma validate_isbn_13: "validate_isbn ''9781593276034'' = Inr ()"
  by code_simp

section \<open>The claims\<close>

subsection \<open>Copies are conserved\<close>

text \<open>
  C1, as amended. Take a well-formed database and add a book to it. After every sequence
  of borrow and return calls, whatever their arguments, clock readings and storage
  failures, the row of that book has \<open>available\<close> plus the number of its transactions
  with NULL \<open>return_date\<close> equal to the \<open>available\<close> it was added with. \<open>available\<close> is
  at least 0 when the book was added with a count of at least 0: \<open>add_book\<close> stores any
  integer. Well-formedness (\<open>wf_db\<close>) holds of the empty and of the seeded database and
  is kept by \<open>add_book\<close>, \<open>borrow_book\<close> and \<open>return_book\<close>.
\<close>

theorem availability_conserved:
  assumes "wf_db s0" and "add_book flt b s0 = (Inr b_id, s1)"
  shows "\<exists>r. select_book b_id (run ops s1) = Some r \<and>
           available r + int (open_loans b_id (run ops s1)) = available b \<and>
           (0 \<le> available b \<longrightarrow> 0 \<le> available r)"
proof -
  let ?row = "\<lparr>title = title b, author = author b, genre = genre b, isbn = isbn b,
               available = available b, book_id = b_id\<rparr>"
  from add_book_cases [of flt b s0] assms(2)
  have b_id: "b_id = next_rowid (map book_id (books s0)) (seq_books s0)"
    and s1: "s1 = s0\<lparr>books := books s0 @ [?row], seq_books := b_id\<rparr>"
    by auto
  have "wf_db s1"
    using wf_add_book [OF assms(1), of flt b] assms(2) by simp
  moreover have "\<forall>x\<in>set (books s0). book_id x \<noteq> b_id"
    using next_rowid_gt_ids [of _ "map book_id (books s0)" "seq_books s0"] b_id by force
  then have sel: "select_book b_id s1 = Some ?row"
    by (simp add: s1 select_book_def find_append_new)
  moreover have "\<forall>t\<in>set (transactions s0). tx_book_id t \<noteq> b_id"
    using assms(1) next_rowid_gt_seq [of "seq_books s0" "map book_id (books s0)"] b_id
    by (auto simp: wf_db_def list_all_iff)
  then have "open_loans b_id s1 = 0"
    by (simp add: s1 open_loans_def)
  ultimately show ?thesis
    using run_conserves [of s1 b_id ?row ops] by simp
qed

text \<open>
  The theorem at work: a fourth book with 2 copies is added to the seeded database, then
  borrowed twice, refused a third time, and returned once.
\<close>

theorem availability_conserved_witness:
  "wf_db seed_db \<and>
   add_book no_faults new_book seed_db =
     (Inr 4, snd (add_book no_faults new_book seed_db)) \<and>
   (\<exists>r. select_book 4
           (run [Borrow no_faults june_1st 1 4 7, Borrow no_faults june_1st 2 4 7,
                 Borrow no_faults june_1st 2 4 7, Return no_faults june_1st 1 5]
              (snd (add_book no_faults new_book seed_db))) = Some r \<and>
        available r + int (open_loans 4
           (run [Borrow no_faults june_1st 1 4 7, Borrow no_faults june_1st 2 4 7,
                 Borrow no_faults june_1st 2 4 7, Return no_faults june_1st 1 5]
              (snd (add_book no_faults new_book seed_db)))) = 2 \<and>
        0 \<le> available r)"
proof -
  have added: "add_book no_faults new_book seed_db =
     (Inr 4, snd (add_book no_faults new_book seed_db))"
    by code_simp
  have copies: "available new_book = 2"
    by (simp add: new_book_def)
  show ?thesis
    using availability_conserved [OF wf_seed_db added,
        of "[Borrow no_faults june_1st 1 4 7, Borrow no_faults june_1st 2 4 7,
             Borrow no_faults june_1st 2 4 7, Return no_faults june_1st 1 5]"]
      wf_seed_db added
    unfolding copies by simp
qed

text \<open>
  C1 as stated fails in its last part: a book added with \<open>available = - 1\<close> has a
  negative count before any borrow or return.
\<close>

theorem availability_negative_counterexample:
  "fst (add_book no_faults negative_book empty_db) = Inr 1 \<and>
   map_option available
     (select_book 1 (run [] (snd (add_book no_faults negative_book empty_db)))) = Some (- 1)"
  by code_simp

subsection \<open>Borrowing\<close>

text \<open>
  C2, as amended. When the SELECT itself succeeds and the book does not exist or has
  \<open>available \<le> 0\<close>, \<open>borrow_book\<close> raises \<open>ValidationError("Book not available")\<close> and
  the database is unchanged: no count moves and no transaction is inserted. The code has
  no exception class of its own for this case.
\<close>

theorem borrow_unavailable:
  assumes "flt 0 = None"
    and "select_book b_id s = None \<or> (\<exists>b. select_book b_id s = Some b \<and> available b \<le> 0)"
  shows "borrow_book flt now m_id b_id days s = (Inl (ValidationError ''Book not available''), s)"
  using assms
  unfolding borrow_book_def except_sqlite3_def with_conn_def execute_def
  by auto

text \<open>The theorem at work: both copies of book 2 are on loan.\<close>

theorem borrow_unavailable_witness:
  "no_faults 0 = None \<and>
   map_option available (select_book 2 (update_available 2 (- 2) seed_db)) = Some 0 \<and>
   borrow_book no_faults june_1st 1 2 7 (update_available 2 (- 2) seed_db) =
     (Inl (ValidationError ''Book not available''), update_available 2 (- 2) seed_db)"
proof -
  have ok: "no_faults 0 = None"
    by (simp add: no_faults_def)
  have zero: "map_option available (select_book 2 (update_available 2 (- 2) seed_db)) = Some 0"
    by code_simp
  then have "\<exists>b. select_book 2 (update_available 2 (- 2) seed_db) = Some b \<and> available b \<le> 0"
    by auto
  then show ?thesis
    using borrow_unavailable [of no_faults 2 "update_available 2 (- 2) seed_db" june_1st 1 7]
      ok zero
    by simp
qed

text \<open>
  C2 as stated names an \<open>UnavailableError\<close>; borrowing book 7, which the seeded database
  does not have, raises \<open>ValidationError\<close>, the class that a malformed ISBN raises.
\<close>

theorem borrow_unavailable_counterexample:
  "borrow_book no_faults june_1st 1 7 7 seed_db =
     (Inl (ValidationError ''Book not available''), seed_db)"
  by code_simp

text \<open>
  C3. For a book with \<open>available \<ge> 1\<close>, a borrow that succeeds leaves the row of the
  book with \<open>available\<close> one less and appends exactly one transaction: a fresh \<open>tx_id\<close>,
  the member and book given, \<open>borrow_date = now\<close>, \<open>due_date\<close> the date of \<open>now\<close> plus
  \<open>days\<close>, NULL \<open>return_date\<close> and \<open>fine = 0\<close>.
\<close>

theorem borrow_success:
  assumes "select_book b_id s = Some b" and "1 \<le> available b"
    and "borrow_book flt now m_id b_id days s = (Inr (), s')"
  shows "select_book b_id s' = Some (b\<lparr>available := available b - 1\<rparr>) \<and>
         transactions s' = transactions s @
           [\<lparr>tx_id = next_rowid (map tx_id (transactions s)) (seq_transactions s),
             tx_member_id = m_id, tx_book_id = b_id, borrow_date = now,
             due_date = date_of now + days, return_date = None, fine = 0\<rparr>]"
proof -
  from borrow_book_cases [of b_id s flt now m_id days] assms(3)
  have s': "s' = insert_tx m_id b_id now (date_of now + days) (update_available b_id (- 1) s)"
    by auto
  have "book_id b = b_id"
    using assms(1) by (rule select_book_available)
  then have "select_book b_id s' = Some (b\<lparr>available := available b - 1\<rparr>)"
    by (simp add: s' select_book_insert_tx select_book_update_available assms(1))
  moreover have "transactions s' = transactions s @
           [\<lparr>tx_id = next_rowid (map tx_id (transactions s)) (seq_transactions s),
             tx_member_id = m_id, tx_book_id = b_id, borrow_date = now,
             due_date = date_of now + days, return_date = None, fine = 0\<rparr>]"
    by (simp add: s' insert_tx_def update_available_def Let_def)
  ultimately show ?thesis by simp
qed

text \<open>The theorem at work: member 1 borrows book 2 of the seeded database for 7 days.\<close>

theorem borrow_success_witness:
  "borrow_book no_faults june_1st 1 2 7 seed_db = (Inr (), loan_db) \<and>
   map_option available (select_book 2 seed_db) = Some 2 \<and>
   map_option available (select_book 2 loan_db) = Some 1 \<and>
   transactions loan_db =
     [\<lparr>tx_id = 1, tx_member_id = 1, tx_book_id = 2, borrow_date = june_1st,
       due_date = 739045, return_date = None, fine = 0\<rparr>]"
proof -
  let ?b = "\<lparr>title = ''Clean Code'', author = ''Robert C. Martin'', genre = ''Software'',
             isbn = ''9780132350884'', available = 2, book_id = 2\<rparr>"
  have book: "select_book 2 seed_db = Some ?b"
    by code_simp
  have copies: "1 \<le> available ?b"
    by simp
  have ran: "borrow_book no_faults june_1st 1 2 7 seed_db = (Inr (), loan_db)"
    by code_simp
  have fresh: "next_rowid [] (seq_transactions seed_db) = 1"
    by code_simp
  have none: "transactions seed_db = []"
    by code_simp
  show ?thesis
    using borrow_success [OF book copies ran] book ran
    by (simp add: fresh none date_of_june_1st)
qed

text \<open>
  C10, as amended. \<open>borrow_book\<close> never looks at table \<open>members\<close>: for every
  \<open>member_id\<close>, also one that no row of \<open>members\<close> has, the borrow succeeds and appends
  a transaction that names it whenever the book exists with \<open>available > 0\<close>, none of
  the four statements (SELECT, UPDATE, INSERT, commit) fails in storage, and the due
  date can be computed: \<open>days\<close> is at most 999999999 in magnitude and the date of \<open>now\<close>
  plus \<open>days\<close> is an ordinal from 1 (1 January of year 1) to 3652059 (31 December 9999).
  Nothing is assumed of \<open>members s\<close>; the schema's FOREIGN KEY clause is not enforced,
  as the connection never turns \<open>PRAGMA foreign_keys\<close> on.
\<close>

theorem borrow_unknown_member:
  assumes "flt 0 = None" "flt 1 = None" "flt 2 = None" "flt 3 = None"
    and "select_book b_id s = Some b" and "0 < available b"
    and "\<bar>days\<bar> \<le> 999999999" "1 \<le> date_of now + days" "date_of now + days \<le> 3652059"
  shows "\<exists>s' t. borrow_book flt now m_id b_id days s = (Inr (), s') \<and>
           transactions s' = transactions s @ [t] \<and>
           tx_member_id t = m_id \<and> tx_book_id t = b_id \<and> return_date t = None \<and>
           members s' = members s"
proof -
  let ?s' = "insert_tx m_id b_id now (date_of now + days) (update_available b_id (- 1) s)"
  have "borrow_book flt now m_id b_id days s = (Inr (), ?s')"
    using assms by (rule borrow_book_ok)
  moreover have "\<exists>t. transactions ?s' = transactions s @ [t] \<and>
           tx_member_id t = m_id \<and> tx_book_id t = b_id \<and> return_date t = None"
    by (simp add: insert_tx_def update_available_def Let_def)
  moreover have "members ?s' = members s"
    by (simp add: insert_tx_def update_available_def Let_def)
  ultimately show ?thesis by blast
qed

text \<open>The theorem at work: member 99, whom the seeded database does not have, borrows book 2.\<close>

theorem borrow_unknown_member_witness:
  "99 \<notin> set (map member_id (members seed_db)) \<and>
   map_option available (select_book 2 seed_db) = Some 2 \<and>
   date_of june_1st + 7 = 739045 \<and>
   (\<exists>s' t. borrow_book no_faults june_1st 99 2 7 seed_db = (Inr (), s') \<and>
      transactions s' = transactions seed_db @ [t] \<and>
      tx_member_id t = 99 \<and> tx_book_id t = 2 \<and> return_date t = None \<and>
      members s' = members seed_db)"
proof -
  let ?b = "\<lparr>title = ''Clean Code'', author = ''Robert C. Martin'', genre = ''Software'',
             isbn = ''9780132350884'', available = 2, book_id = 2\<rparr>"
  have stranger: "99 \<notin> set (map member_id (members seed_db))"
    by (simp add: seed_db_def)
  have book: "select_book 2 seed_db = Some ?b"
    by code_simp
  have copies: "0 < available ?b"
    by simp
  have ok: "no_faults 0 = None" "no_faults 1 = None" "no_faults 2 = None" "no_faults 3 = None"
    by (simp_all add: no_faults_def)
  have range: "\<bar>7::int\<bar> \<le> 999999999" "1 \<le> date_of june_1st + 7"
    "date_of june_1st + 7 \<le> 3652059"
    by (simp_all add: date_of_june_1st)
  show ?thesis
    using borrow_unknown_member [OF ok book copies range, of 99] stranger book
    by (simp add: date_of_june_1st)
qed

text \<open>
  C10 as stated fails: book 2 of the seeded database has 2 copies, and a borrow for
  3000000 days, whose due date would lie beyond the year 9999, raises \<open>OverflowError\<close>
  at \<open>now + timedelta(days=days)\<close>; the decrement is rolled back and no transaction is
  inserted.
\<close>

theorem borrow_unknown_member_counterexample:
  "map_option available (select_book 2 seed_db) = Some 2 \<and>
   borrow_book no_faults june_1st 99 2 3000000 seed_db = (Inl OverflowError, seed_db)"
  by code_simp

subsection \<open>Returning\<close>

text \<open>
  C4. Let transaction \<open>t_id\<close> be open, let its book exist and let no statement fail in
  storage. Then \<open>return_book\<close> returns the fine it stores: with \<open>N\<close> the date of
  \<open>today\<close> minus the due date, the fine is \<open>N * F\<close> when \<open>N > 0\<close>, and 0 when the due
  date is today or later. The transaction gets \<open>return_date\<close> the date of \<open>today\<close>, so
  it is closed, and the \<open>available\<close> of its book goes up by 1.
\<close>

theorem return_fine:
  assumes "flt 0 = None" "flt 1 = None" "flt 2 = None" "flt 3 = None"
    and "select_tx t_id s = Some t" and "return_date t = None"
    and "select_book (tx_book_id t) s = Some b"
  shows "\<exists>amount s'.
           return_book flt today t_id F s = (Inr amount, s') \<and>
           (due_date t < date_of today \<longrightarrow> amount = (date_of today - due_date t) * F) \<and>
           (date_of today \<le> due_date t \<longrightarrow> amount = 0) \<and>
           select_tx t_id s' = Some (t\<lparr>return_date := Some (date_of today), fine := amount\<rparr>) \<and>
           select_book (tx_book_id t) s' = Some (b\<lparr>available := available b + 1\<rparr>)"
proof -
  let ?amount = "max (date_of today - due_date t) 0 * F"
  let ?s' = "update_available (tx_book_id t) 1 (close_tx t_id (date_of today) ?amount s)"
  have "return_book flt today t_id F s = (Inr ?amount, ?s')"
    using assms(1-6) by (rule return_book_ok)
  moreover have "due_date t < date_of today \<longrightarrow> ?amount = (date_of today - due_date t) * F"
    by simp
  moreover have "date_of today \<le> due_date t \<longrightarrow> ?amount = 0"
    by simp
  moreover have "select_tx t_id ?s' = Some (t\<lparr>return_date := Some (date_of today), fine := ?amount\<rparr>)"
    using select_tx_id [OF assms(5)]
    by (simp add: select_tx_update_available select_tx_close_tx assms(5))
  moreover have "select_book (tx_book_id t) ?s' = Some (b\<lparr>available := available b + 1\<rparr>)"
    using select_book_available [OF assms(7)]
    by (simp add: select_book_update_available select_book_close_tx assms(7))
  ultimately show ?thesis by blast
qed

text \<open>
  The theorem at work: the loan of 1 June, due on 8 June (ordinal 739045), comes back on
  11 June at 5 a day, and the fine is 15.
\<close>

theorem return_fine_witness:
  "map_option due_date (select_tx 1 loan_db) = Some 739045 \<and>
   date_of (june_1st + 10 * us_per_day) = 739048 \<and>
   fst (return_book no_faults (june_1st + 10 * us_per_day) 1 5 loan_db) = Inr 15 \<and>
   map_option return_date (select_tx 1 returned_db) = Some (Some 739048) \<and>
   map_option fine (select_tx 1 returned_db) = Some 15 \<and>
   map_option available (select_book 2 loan_db) = Some 1 \<and>
   map_option available (select_book 2 returned_db) = Some 2"
proof -
  let ?t = "\<lparr>tx_id = 1, tx_member_id = 1, tx_book_id = 2, borrow_date = june_1st,
             due_date = 739045, return_date = None, fine = 0\<rparr>"
  let ?b = "\<lparr>title = ''Clean Code'', author = ''Robert C. Martin'', genre = ''Software'',
             isbn = ''9780132350884'', available = 1, book_id = 2\<rparr>"
  have ok: "no_faults 0 = None" "no_faults 1 = None" "no_faults 2 = None" "no_faults 3 = None"
    by (simp_all add: no_faults_def)
  have loan: "select_tx 1 loan_db = Some ?t"
    by code_simp
  have "open": "return_date ?t = None"
    by simp
  have book: "select_book (tx_book_id ?t) loan_db = Some ?b"
    by code_simp
  have today: "date_of (june_1st + 10 * us_per_day) = 739048"
    by (simp add: date_of_add_days date_of_june_1st)
  from return_fine [OF ok loan "open" book, of "june_1st + 10 * us_per_day" 5] book
  show ?thesis
    by (auto simp: returned_db_def today loan)
qed

text \<open>
  C5, as amended. When the SELECT itself succeeds and no transaction has the id, or the
  one that has it carries a \<open>return_date\<close>, \<open>return_book\<close> raises
  \<open>ValidationError("Invalid transaction or already returned")\<close> and the database is
  unchanged. In particular, in the state a successful return of \<open>t_id\<close> leaves, a second
  return of \<open>t_id\<close> raises that error and changes neither the fine nor any count. The
  code has no exception class of its own for this case.
\<close>

theorem return_invalid:
  assumes "flt 0 = None"
  shows "(select_tx t_id s = None \<or> (\<exists>t. select_tx t_id s = Some t \<and> return_date t \<noteq> None) \<longrightarrow>
            return_book flt today t_id F s =
              (Inl (ValidationError ''Invalid transaction or already returned''), s)) \<and>
         (return_book flt0 today0 t_id F0 s0 = (Inr amount, s) \<longrightarrow>
            return_book flt today t_id F s =
              (Inl (ValidationError ''Invalid transaction or already returned''), s))"
proof -
  have first: "return_book flt today t_id F s =
              (Inl (ValidationError ''Invalid transaction or already returned''), s)"
    if "select_tx t_id s = None \<or> (\<exists>t. select_tx t_id s = Some t \<and> return_date t \<noteq> None)"
    using that assms
    unfolding return_book_def except_sqlite3_def with_conn_def execute_def
    by auto
  have "\<exists>t. select_tx t_id s = Some t \<and> return_date t \<noteq> None"
    if "return_book flt0 today0 t_id F0 s0 = (Inr amount, s)"
  proof -
    from return_book_cases [of t_id s0 flt0 today0 F0] that
    obtain t where t: "select_tx t_id s0 = Some t"
      and s: "s = update_available (tx_book_id t) 1 (close_tx t_id (date_of today0) amount s0)"
      by auto
    show ?thesis
      using select_tx_id [OF t]
      by (simp add: s select_tx_update_available select_tx_close_tx t)
  qed
  with first show ?thesis by blast
qed

text \<open>
  The theorem at work: the loan returned on 11 June is returned again a day later at 9
  a day, and an id that was never given out is returned.
\<close>

theorem return_invalid_witness:
  "return_book no_faults (june_1st + 10 * us_per_day) 1 5 loan_db = (Inr 15, returned_db) \<and>
   return_book no_faults (june_1st + 11 * us_per_day) 1 9 returned_db =
     (Inl (ValidationError ''Invalid transaction or already returned''), returned_db) \<and>
   select_tx 8 seed_db = None \<and>
   return_book no_faults june_1st 8 5 seed_db =
     (Inl (ValidationError ''Invalid transaction or already returned''), seed_db)"
proof -
  have ok: "no_faults 0 = None"
    by (simp add: no_faults_def)
  have first: "return_book no_faults (june_1st + 10 * us_per_day) 1 5 loan_db = (Inr 15, returned_db)"
    by code_simp
  have none: "select_tx 8 seed_db = None"
    by code_simp
  show ?thesis
    using return_invalid [where flt = no_faults and t_id = 1 and s = returned_db
          and today = "june_1st + 11 * us_per_day" and F = 9 and flt0 = no_faults
          and ?today0.0 = "june_1st + 10 * us_per_day" and ?F0.0 = 5 and ?s0.0 = loan_db
          and amount = 15]
      return_invalid [where flt = no_faults and t_id = 8 and s = seed_db and today = june_1st
          and F = 5]
      ok first none
    by simp
qed

text \<open>
  C5 as stated names an \<open>InvalidTransactionError\<close>; returning transaction 1 of the
  seeded database, which has no transactions, raises \<open>ValidationError\<close>.
\<close>

theorem return_invalid_counterexample:
  "return_book no_faults june_1st 1 5 seed_db =
     (Inl (ValidationError ''Invalid transaction or already returned''), seed_db)"
  by code_simp

subsection \<open>Storage failures\<close>

text \<open>
  C6, as amended. Let statement \<open>k\<close> be the first that fails in storage, with message
  \<open>msg\<close>, in a borrow or a return that gets as far as statement \<open>k\<close>: a borrow gets
  beyond its SELECT when the book is available and beyond its UPDATE when the due date
  can be computed, a return gets beyond its SELECT when the transaction is open. Then
  the caller gets \<open>ValidationError("DB error: " + msg)\<close>, and the database is
  unchanged: the rollback undoes the statements that went through. The code has no
  exception class of its own for storage failures; the cause is kept as text.
\<close>

theorem storage_failure:
  assumes "flt k = Some msg" and "\<forall>j<k. flt j = None" and "k \<le> 3"
  shows "(k = 0 \<or> (\<exists>b. select_book b_id s = Some b \<and> 0 < available b \<and>
              (k = 1 \<or> (\<bar>days\<bar> \<le> 999999999 \<and> 1 \<le> date_of now + days \<and>
                         date_of now + days \<le> 3652059))) \<longrightarrow>
            borrow_book flt now m_id b_id days s =
              (Inl (ValidationError (''DB error: '' @ msg)), s)) \<and>
         (k = 0 \<or> (\<exists>t. select_tx t_id s = Some t \<and> return_date t = None) \<longrightarrow>
            return_book flt today t_id F s =
              (Inl (ValidationError (''DB error: '' @ msg)), s))"
proof -
  from assms(3) consider "k = 0" | "k = 1" | "k = 2" | "k = 3"
    by linarith
  then show ?thesis
  proof cases
    case 1
    with assms(1) show ?thesis
      unfolding borrow_book_def return_book_def except_sqlite3_def with_conn_def execute_def
      by simp
  next
    case 2
    with assms(1,2) have "flt 0 = None" "flt 1 = Some msg"
      by simp_all
    then show ?thesis
      unfolding borrow_book_def return_book_def except_sqlite3_def with_conn_def execute_def
      by (auto simp: Let_def 2)
  next
    case 3
    with assms(1,2) have "flt 0 = None" "flt 1 = None" "flt 2 = Some msg"
      by simp_all
    then show ?thesis
      unfolding borrow_book_def return_book_def except_sqlite3_def with_conn_def execute_def
        timedelta_def datetime_add_def
      by (auto simp: Let_def 3 date_of_add_days)
  next
    case 4
    with assms(1,2) have "flt 0 = None" "flt 1 = None" "flt 2 = None" "flt 3 = Some msg"
      by simp_all
    then show ?thesis
      unfolding borrow_book_def return_book_def except_sqlite3_def with_conn_def execute_def
        timedelta_def datetime_add_def
      by (auto simp: Let_def 4 date_of_add_days)
  qed
qed

text \<open>
  The theorem at work: the third statement fails, the INSERT of a borrow and the UPDATE
  of \<open>books\<close> of a return, after the statements before it went through.
\<close>

theorem storage_failure_witness:
  "io_fault 2 = Some ''disk I/O error'' \<and> io_fault 0 = None \<and> io_fault 1 = None \<and>
   borrow_book io_fault june_1st 1 2 7 seed_db =
     (Inl (ValidationError ''DB error: disk I/O error''), seed_db) \<and>
   return_book io_fault (june_1st + 10 * us_per_day) 1 5 loan_db =
     (Inl (ValidationError ''DB error: disk I/O error''), loan_db)"
proof -
  let ?b = "\<lparr>title = ''Clean Code'', author = ''Robert C. Martin'', genre = ''Software'',
             isbn = ''9780132350884'', available = 2, book_id = 2\<rparr>"
  let ?t = "\<lparr>tx_id = 1, tx_member_id = 1, tx_book_id = 2, borrow_date = june_1st,
             due_date = 739045, return_date = None, fine = 0\<rparr>"
  have fails: "io_fault 2 = Some ''disk I/O error''"
    by (simp add: io_fault_def)
  have before: "\<forall>j<2. io_fault j = None"
    by (simp add: io_fault_def)
  have book: "select_book 2 seed_db = Some ?b"
    by code_simp
  have loan: "select_tx 1 loan_db = Some ?t"
    by code_simp
  show ?thesis
    using storage_failure [where flt = io_fault and k = 2 and msg = "''disk I/O error''"
          and b_id = 2 and s = seed_db and days = 7 and now = june_1st and m_id = 1]
      storage_failure [where flt = io_fault and k = 2 and msg = "''disk I/O error''"
          and t_id = 1 and s = loan_db and today = "june_1st + 10 * us_per_day" and F = 5]
      fails before book loan
    by (simp add: date_of_june_1st)
qed

text \<open>
  C6 as stated names a \<open>StorageError\<close>; a borrow whose INSERT fails raises
  \<open>ValidationError\<close>, the class that a malformed ISBN raises.
\<close>

theorem storage_failure_counterexample:
  "borrow_book io_fault june_1st 2 3 7 seed_db =
     (Inl (ValidationError ''DB error: disk I/O error''), seed_db)"
  by code_simp

subsection \<open>Adding books\<close>

text \<open>
  C7, as amended. When some book already has the ISBN of the book to add, \<open>add_book\<close>
  raises and inserts nothing: the database is unchanged. What it raises is
  \<open>sqlite3.IntegrityError\<close> for the UNIQUE constraint, which \<open>add_book\<close> lets through
  as it is, when the ISBN is valid and the INSERT is not hit by a storage failure, and
  \<open>ValidationError("Invalid ISBN")\<close> when the ISBN is not valid. The code has no
  exception class of its own for a duplicate.
\<close>

theorem add_book_duplicate:
  assumes "isbn b \<in> set (map isbn (books s))"
  shows "\<exists>e. add_book flt b s = (Inl e, s) \<and>
           (validate_isbn (isbn b) = Inr () \<and> flt 0 = None \<longrightarrow>
              e = sqlite3_IntegrityError ''UNIQUE constraint failed: books.isbn'') \<and>
           (validate_isbn (isbn b) \<noteq> Inr () \<longrightarrow> e = ValidationError ''Invalid ISBN'')"
  using assms
  unfolding add_book_def with_conn_def execute_def validate_isbn_def
  by (auto split: option.splits)

text \<open>The theorem at work: a second book with the ISBN of book 1 of the seeded database.\<close>

theorem add_book_duplicate_witness:
  "''9781593276034'' \<in> set (map isbn (books seed_db)) \<and>
   add_book no_faults (new_book\<lparr>isbn := ''9781593276034''\<rparr>) seed_db =
     (Inl (sqlite3_IntegrityError ''UNIQUE constraint failed: books.isbn''), seed_db)"
proof -
  have dup: "isbn (new_book\<lparr>isbn := ''9781593276034''\<rparr>) \<in> set (map isbn (books seed_db))"
    by (simp add: seed_db_def)
  have ok: "no_faults 0 = None"
    by (simp add: no_faults_def)
  show ?thesis
    using add_book_duplicate [OF dup, of no_faults] dup ok validate_isbn_13
    by auto
qed

text \<open>
  C7 as stated names a \<open>DuplicateError\<close>; what reaches the caller is the exception of
  the storage engine.
\<close>

theorem add_book_duplicate_counterexample:
  "add_book no_faults
     \<lparr>title = ''Python Crash Course'', author = ''Eric Matthes'', genre = ''Programming'',
      isbn = ''9781593276034'', available = 1\<rparr> seed_db =
     (Inl (sqlite3_IntegrityError ''UNIQUE constraint failed: books.isbn''), seed_db)"
  by code_simp

text \<open>
  C8. In every state and for every other field, \<open>add_book\<close> with ISBN \<open>"123"\<close> raises
  \<open>ValidationError\<close> and changes nothing; the 13-digit ISBN \<open>"9781593276034"\<close> passes
  \<open>_validate_isbn\<close>, and a book that carries it is added to the empty database, as
  book 1.
\<close>

theorem isbn_examples:
  "add_book flt (b\<lparr>isbn := ''123''\<rparr>) s = (Inl (ValidationError ''Invalid ISBN''), s) \<and>
   validate_isbn ''9781593276034'' = Inr () \<and>
   fst (add_book no_faults (b\<lparr>isbn := ''9781593276034''\<rparr>) empty_db) = Inr 1"
  by (simp add: add_book_def validate_isbn_123 validate_isbn_13 with_conn_def execute_def
        no_faults_def empty_db_def next_rowid_def)

subsection \<open>The overdue report\<close>

text \<open>
  C9. The overdue report is to list every open loan whose due date is strictly before
  today, with the whole days between the two, and no other loan. The code does so for
  the loan of member 1: on 11 June (ordinal 739048) the loan due on 8 June (739045) is
  listed with 3 days, and on 7 June, the day before it is due, it is not listed. It
  loses the loan of member 99: the schema declares \<open>FOREIGN KEY(member_id)\<close>, nothing
  enforces it and \<open>borrow_book\<close> checks the book but not the member, so the borrow goes
  through, and the inner join of \<open>active_loans\<close> with \<open>members\<close> then drops the
  transaction. The loan is open and 3 days overdue on 11 June, and the report is empty.
\<close>

theorem overdue_list_hides_loan:
  "overdue_list (june_1st + 10 * us_per_day) loan_db =
     [(''Overdue'', ''Alice Sharma'', ''Clean Code'', ''3 days'')] \<and>
   overdue_list (june_1st + 6 * us_per_day) loan_db = [] \<and>
   map member_id (members seed_db) = [1, 2] \<and>
   borrow_book no_faults june_1st 99 2 7 seed_db = (Inr (), stranger_db) \<and>
   transactions stranger_db =
     [\<lparr>tx_id = 1, tx_member_id = 99, tx_book_id = 2, borrow_date = june_1st,
       due_date = 739045, return_date = None, fine = 0\<rparr>] \<and>
   date_of (june_1st + 10 * us_per_day) = 739048 \<and>
   active_loans stranger_db = [] \<and>
   overdue_list (june_1st + 10 * us_per_day) stranger_db = []"
  by code_simp

end
